theory Spec2Isabelle
  imports Complex_Main
begin

section \<open>Numbers of the language\<close>

text \<open>
  The program computes with the language's \<open>number\<close> type. A number is modelled as a finite
  value, held as a real, or one of the three non-finite values. Addition, division and the
  comparisons follow the language on the non-finite values (a NaN operand gives NaN, every
  comparison with NaN is false). Rounding, overflow of a finite result and the sign of zero
  are not modelled: finite arithmetic is exact.
\<close>

datatype jsnum = Fin real | NaN | PInf | NInf

fun js_add :: "jsnum \<Rightarrow> jsnum \<Rightarrow> jsnum" where
  "js_add NaN b = NaN"
| "js_add a NaN = NaN"
| "js_add (Fin a) (Fin b) = Fin (a + b)"
| "js_add PInf NInf = NaN"
| "js_add NInf PInf = NaN"
| "js_add PInf b = PInf"
| "js_add a PInf = PInf"
| "js_add NInf b = NInf"
| "js_add a NInf = NInf"

fun js_div :: "jsnum \<Rightarrow> jsnum \<Rightarrow> jsnum" where
  "js_div NaN b = NaN"
| "js_div a NaN = NaN"
| "js_div (Fin a) (Fin b) =
     (if b \<noteq> 0 then Fin (a / b) else if a = 0 then NaN else if 0 < a then PInf else NInf)"
| "js_div (Fin a) b = Fin 0"
| "js_div PInf (Fin b) = (if 0 \<le> b then PInf else NInf)"
| "js_div NInf (Fin b) = (if 0 \<le> b then NInf else PInf)"
| "js_div a b = NaN"

fun js_lt :: "jsnum \<Rightarrow> jsnum \<Rightarrow> bool" where
  "js_lt NaN b = False"
| "js_lt a NaN = False"
| "js_lt (Fin a) (Fin b) = (a < b)"
| "js_lt a NInf = False"
| "js_lt PInf b = False"
| "js_lt a b = True"

definition js_ge :: "jsnum \<Rightarrow> jsnum \<Rightarrow> bool" where
  "js_ge a b = (a \<noteq> NaN \<and> b \<noteq> NaN \<and> \<not> js_lt a b)"

text \<open>The strict equality \<open>===\<close> on numbers: NaN equals nothing, itself included.\<close>

definition js_eq :: "jsnum \<Rightarrow> jsnum \<Rightarrow> bool" where
  "js_eq a b = (a \<noteq> NaN \<and> a = b)"

fun isFinite :: "jsnum \<Rightarrow> bool" where
  "isFinite (Fin a) = True"
| "isFinite a = False"

section \<open>The analytic engine\<close>

type_synonym matrix = "jsnum list list"

text \<open>
  \<open>matrix[i]?.[j]\<close>: the cell, or nothing (\<open>undefined\<close>) when the row or the cell is absent.
  \<open>orZero\<close> is the \<open>?? 0\<close> that follows it.
\<close>

definition cellAt :: "matrix \<Rightarrow> nat \<Rightarrow> nat \<Rightarrow> jsnum option" where
  "cellAt m i j = (if i < length m \<and> j < length (m ! i) then Some (m ! i ! j) else None)"

fun orZero :: "jsnum option \<Rightarrow> jsnum" where
  "orZero None = Fin 0"
| "orZero (Some v) = v"

text \<open>
  \<open>computeXY\<close>: two arrays of zeros, and the double loop that skips \<open>i = j\<close> and adds the
  cell to \<open>driving[i]\<close> and to \<open>dependency[j]\<close>. The state of the loops is the pair
  (dependency, driving).
\<close>

definition addCell :: "matrix \<Rightarrow> nat \<Rightarrow> nat \<Rightarrow> jsnum list \<times> jsnum list \<Rightarrow> jsnum list \<times> jsnum list" where
  "addCell m i j s =
     (if i = j then s
      else (let v = orZero (cellAt m i j); dependency = fst s; driving = snd s
            in (dependency[j := js_add (dependency ! j) v], driving[i := js_add (driving ! i) v])))"

definition rowLoop :: "matrix \<Rightarrow> nat \<Rightarrow> nat \<Rightarrow> jsnum list \<times> jsnum list \<Rightarrow> jsnum list \<times> jsnum list" where
  "rowLoop m n i s = fold (addCell m i) [0..<n] s"

definition computeXY :: "matrix \<Rightarrow> jsnum list \<times> jsnum list" where
  "computeXY m =
     (let n = length m
      in fold (rowLoop m n) [0..<n] (replicate n (Fin 0), replicate n (Fin 0)))"

text \<open>\<open>computeCut\<close>: 0 for no values, otherwise the left-to-right sum over the length.\<close>

definition computeCut :: "jsnum list \<Rightarrow> jsnum" where
  "computeCut vs =
     (if vs = [] then Fin 0 else js_div (foldl js_add (Fin 0) vs) (Fin (real (length vs))))"

definition quadrantLabel :: "jsnum \<Rightarrow> jsnum \<Rightarrow> jsnum \<Rightarrow> jsnum \<Rightarrow> string" where
  "quadrantLabel x y xCut yCut =
     (if js_ge y yCut \<and> js_lt x xCut then ''Determinante''
      else if js_ge y yCut \<and> js_ge x xCut then ''Reguladora''
      else if js_lt y yCut \<and> js_ge x xCut then ''Resultado''
      else ''Autonoma'')"

record ComputeOut =
  variables :: "string list"
  dependencia_x :: "jsnum list"
  motricidad_y :: "jsnum list"
  x_cut :: jsnum
  y_cut :: jsnum
  quadrants :: "string \<rightharpoonup> string"

text \<open>
  The search of \<open>buildPreviewResult\<close> for a cell off the diagonal that is finite and not 0:
  its two loops leave at the first such cell, so they compute whether one exists in the
  window of the first n rows and n columns.
\<close>

definition finiteNonZeroAt :: "matrix \<Rightarrow> nat \<Rightarrow> nat \<Rightarrow> bool" where
  "finiteNonZeroAt m i j =
     (case cellAt m i j of None \<Rightarrow> False | Some v \<Rightarrow> isFinite v \<and> v \<noteq> Fin 0)"

definition hasValue :: "matrix \<Rightarrow> nat \<Rightarrow> bool" where
  "hasValue m n =
     list_ex (\<lambda>i. list_ex (\<lambda>j. i \<noteq> j \<and> finiteNonZeroAt m i j) [0..<n]) [0..<n]"

definition buildPreviewResult :: "string list \<Rightarrow> matrix \<Rightarrow> ComputeOut option" where
  "buildPreviewResult vars m =
     (let n = length vars
      in if n = 0 \<or> length m \<noteq> n then None
         else if \<not> hasValue m n then None
         else (let dependency = fst (computeXY m); driving = snd (computeXY m);
                   xCut = computeCut dependency; yCut = computeCut driving;
                   qs = fold (\<lambda>i q. q(vars ! i \<mapsto>
                          quadrantLabel (dependency ! i) (driving ! i) xCut yCut)) [0..<n] Map.empty
               in Some \<lparr>variables = vars, dependencia_x = dependency, motricidad_y = driving,
                        x_cut = xCut, y_cut = yCut, quadrants = qs\<rparr>))"

section \<open>The dataset importer\<close>

text \<open>
  A table is a list of rows, as the spreadsheet reader hands them over. A row is an array
  of the language, which may have holes: positions below its length that hold nothing. A
  row is modelled as a list of slots, \<open>None\<close> for a hole and \<open>Some c\<close> for a cell. Reading a
  hole, or reading beyond the end, gives \<open>undefined\<close>; \<open>map\<close> leaves a hole as a hole without
  calling its function, \<open>some\<close> passes over it, \<open>slice\<close> keeps it, \<open>findIndex\<close> sees it as
  \<open>undefined\<close>, and \<open>join\<close> and the spread of an array write it as nothing. A cell is a
  number, a string, a boolean, \<open>null\<close> or \<open>undefined\<close>.

  Strings are lists of 8-bit characters. The two conversions of the language between
  numbers and strings are parameters of the functions that use them: \<open>num\<close> is
  \<open>Number(s)\<close> on a string and \<open>str\<close> is \<open>String(v)\<close> on a number. The spreadsheet reader
  is a library outside the repository and is a parameter too: \<open>reader text\<close> is the list of
  rows that \<open>XLSX.read\<close> and \<open>sheet_to_json\<close> (rows as arrays, blank rows left out) give for
  the first sheet of a text.
\<close>

type_synonym 'a jsarray = "'a option list"

datatype cell = CNum jsnum | CStr string | CBool bool | CNull | CUndefined

definition cellOf :: "cell jsarray \<Rightarrow> nat \<Rightarrow> cell" where
  "cellOf row k =
     (if k < length row then (case row ! k of None \<Rightarrow> CUndefined | Some c \<Rightarrow> c) else CUndefined)"

text \<open>
  The white space that \<open>trim\<close> removes and the capital letters that \<open>toLowerCase\<close> maps,
  among the 8-bit characters.
\<close>

definition isSpace :: "char \<Rightarrow> bool" where
  "isSpace c = (c = CHR 0x09 \<or> c = CHR 0x0A \<or> c = CHR 0x0B \<or> c = CHR 0x0C \<or> c = CHR 0x0D
                \<or> c = CHR 0x20 \<or> c = CHR 0xA0)"

definition trim :: "string \<Rightarrow> string" where
  "trim s = rev (dropWhile isSpace (rev (dropWhile isSpace s)))"

definition lowerChar :: "char \<Rightarrow> char" where
  "lowerChar c =
     (let n = (of_char c :: nat)
      in if (65 \<le> n \<and> n \<le> 90) \<or> (192 \<le> n \<and> n \<le> 222 \<and> n \<noteq> 215) then char_of (n + 32) else c)"

definition toLowerCase :: "string \<Rightarrow> string" where
  "toLowerCase s = map lowerChar s"

text \<open>\<open>replace(",", ".")\<close> with a string pattern: the first comma only.\<close>

fun replaceComma :: "string \<Rightarrow> string" where
  "replaceComma [] = []"
| "replaceComma (c # cs) = (if c = CHR '','' then CHR ''.'' # cs else c # replaceComma cs)"

fun js_String :: "(jsnum \<Rightarrow> string) \<Rightarrow> cell \<Rightarrow> string" where
  "js_String str (CStr s) = s"
| "js_String str (CNum v) = str v"
| "js_String str (CBool b) = (if b then ''true'' else ''false'')"
| "js_String str CNull = ''null''"
| "js_String str CUndefined = ''undefined''"

text \<open>\<open>String(cell ?? "")\<close>.\<close>

definition stringOrEmpty :: "(jsnum \<Rightarrow> string) \<Rightarrow> cell \<Rightarrow> string" where
  "stringOrEmpty str c = (if c = CNull \<or> c = CUndefined then [] else js_String str c)"

text \<open>
  The errors the importer throws, one constructor for each message:
  \<^item> \<open>NoData\<close>: "El archivo no contiene datos."
  \<^item> \<open>NoHeader\<close>: "La primera fila debe listar los nombres de variables."
  \<^item> \<open>MissingName k\<close>: "Asigna un nombre a la variable k en la cabecera."
  \<^item> \<open>BadSize n m\<close>: "La matriz debe ser n x n; se encontraron m filas con datos."
  \<^item> \<open>RowLabel a b r\<close>: "El nombre de fila a no coincide con b en la fila r."
  \<^item> \<open>NonNumeric r c\<close>: "Valor no numerico en la posicion (r, c)."
  \<^item> \<open>NoValidNames\<close>: "variables.csv no tiene nombres validos."
  \<^item> \<open>CountMismatch\<close>: "Los archivos CSV no tienen la misma cantidad de variables."
  \<^item> \<open>HeaderMismatch\<close>: "Los encabezados de matrix.csv deben coincidir con variables.csv en
    orden y nombre."
\<close>

datatype importError =
    NoData
  | NoHeader
  | MissingName nat
  | BadSize nat nat
  | RowLabel string string nat
  | NonNumeric nat nat
  | NoValidNames
  | CountMismatch
  | HeaderMismatch

text \<open>
  \<open>xs.map(f)\<close> with an \<open>f\<close> that may throw: the results in order, or the first error.
\<close>

fun mapResult :: "('a \<Rightarrow> 'e + 'b) \<Rightarrow> 'a list \<Rightarrow> 'e + 'b list" where
  "mapResult f [] = Inr []"
| "mapResult f (x # xs) =
     (case f x of
        Inl e \<Rightarrow> Inl e
      | Inr y \<Rightarrow> (case mapResult f xs of Inl e \<Rightarrow> Inl e | Inr ys \<Rightarrow> Inr (y # ys)))"

definition normalizeNumberCell :: "(string \<Rightarrow> jsnum) \<Rightarrow> cell \<Rightarrow> nat \<Rightarrow> nat \<Rightarrow> importError + jsnum" where
  "normalizeNumberCell num c rowIndex colIndex =
     (case c of
        CNum v \<Rightarrow> if isFinite v then Inr v else Inl (NonNumeric rowIndex colIndex)
      | CStr s \<Rightarrow>
          (let normalized = replaceComma (trim s)
           in if normalized = [] then Inr (Fin 0)
              else if isFinite (num normalized) then Inr (num normalized)
              else if s = [] then Inr (Fin 0)
              else Inl (NonNumeric rowIndex colIndex))
      | CNull \<Rightarrow> Inr (Fin 0)
      | CUndefined \<Rightarrow> Inr (Fin 0)
      | CBool b \<Rightarrow> Inl (NonNumeric rowIndex colIndex))"

text \<open>
  The dataset the parser returns. Its list of names comes from \<open>map\<close> over the header row
  and each matrix row from \<open>map\<close> over the names, so both are arrays that may have holes.
\<close>

record ParsedDataset =
  variables :: "string jsarray"
  matrix :: "jsnum jsarray list"

definition parseVariablesRows :: "(jsnum \<Rightarrow> string) \<Rightarrow> cell jsarray list \<Rightarrow> string list" where
  "parseVariablesRows str rows =
     (if rows = [] then []
      else (let header = map (map_option (\<lambda>c. toLowerCase (trim (stringOrEmpty str c)))) (hd rows);
                found = find (\<lambda>k. header ! k = Some ''name'' \<or> header ! k = Some ''variable''
                                   \<or> header ! k = Some ''nombre'') [0..<length header];
                dataRows = (if found \<noteq> None then tl rows else rows);
                nameIdx = (case found of None \<Rightarrow> 0 | Some k \<Rightarrow> k)
            in filter (\<lambda>v. v \<noteq> [])
                 (map (\<lambda>row. trim (stringOrEmpty str (cellOf row nameIdx))) dataRows)))"

text \<open>
  The pieces of \<open>parseMatrixTable\<close>: the header names (first row without its first slot,
  each cell as a trimmed string, each hole left a hole), the data rows (the rows after the
  first that hold a cell that is neither null, undefined nor blank), and the reading of one
  data row, which leaves a hole in every column whose header slot is a hole.
\<close>

definition headerCells :: "(jsnum \<Rightarrow> string) \<Rightarrow> cell jsarray list \<Rightarrow> string jsarray" where
  "headerCells str rows =
     (if rows = [] then []
      else map (map_option (\<lambda>c. trim (stringOrEmpty str c))) (tl (hd rows)))"

definition nonBlankRow :: "(jsnum \<Rightarrow> string) \<Rightarrow> cell jsarray \<Rightarrow> bool" where
  "nonBlankRow str row =
     list_ex (\<lambda>slot. case slot of
                None \<Rightarrow> False
              | Some c \<Rightarrow> c \<noteq> CNull \<and> c \<noteq> CUndefined \<and> trim (js_String str c) \<noteq> []) row"

definition bodyRows :: "(jsnum \<Rightarrow> string) \<Rightarrow> cell jsarray list \<Rightarrow> cell jsarray list" where
  "bodyRows str rows = filter (nonBlankRow str) (tl rows)"

definition checkName :: "string jsarray \<Rightarrow> nat \<Rightarrow> importError + string option" where
  "checkName header idx =
     (case header ! idx of
        None \<Rightarrow> Inr None
      | Some name \<Rightarrow> if name = [] then Inl (MissingName (idx + 1)) else Inr (Some name))"

definition readCell ::
  "(string \<Rightarrow> jsnum) \<Rightarrow> string jsarray \<Rightarrow> nat \<Rightarrow> cell jsarray \<Rightarrow> nat \<Rightarrow> importError + jsnum option" where
  "readCell num vars rowIndex row colIndex =
     (case vars ! colIndex of
        None \<Rightarrow> Inr None
      | Some name \<Rightarrow>
          (case normalizeNumberCell num (cellOf row (colIndex + 1)) (rowIndex + 2) (colIndex + 2) of
             Inl e \<Rightarrow> Inl e
           | Inr v \<Rightarrow> Inr (Some v)))"

definition parseRow ::
  "(string \<Rightarrow> jsnum) \<Rightarrow> (jsnum \<Rightarrow> string) \<Rightarrow> string jsarray \<Rightarrow> nat \<Rightarrow> cell jsarray \<Rightarrow>
     importError + jsnum jsarray" where
  "parseRow num str vars rowIndex row =
     (let rowName = trim (stringOrEmpty str (cellOf row 0))
      in if rowName \<noteq> [] \<and> vars ! rowIndex \<noteq> Some rowName
         then Inl (RowLabel rowName
                (case vars ! rowIndex of None \<Rightarrow> ''undefined'' | Some v \<Rightarrow> v) (rowIndex + 2))
         else mapResult (readCell num vars rowIndex row) [0..<length vars])"

definition parseMatrixTable ::
  "(string \<Rightarrow> jsnum) \<Rightarrow> (jsnum \<Rightarrow> string) \<Rightarrow> cell jsarray list \<Rightarrow> importError + ParsedDataset" where
  "parseMatrixTable num str rows =
     (if rows = [] then Inl NoData
      else (let header = headerCells str rows
            in if header = [] then Inl NoHeader
               else (case mapResult (checkName header) [0..<length header] of
                       Inl e \<Rightarrow> Inl e
                     | Inr vars \<Rightarrow>
                         (let body = bodyRows str rows
                          in if length body \<noteq> length vars
                             then Inl (BadSize (length vars) (length body))
                             else (case mapResult (\<lambda>rowIndex.
                                          parseRow num str vars rowIndex (body ! rowIndex))
                                          [0..<length body] of
                                     Inl e \<Rightarrow> Inl e
                                   | Inr m \<Rightarrow> Inr \<lparr>variables = vars, matrix = m\<rparr>)))))"

text \<open>
  The two entry points for delimited text: the text goes through the reader and the rows
  to the parser. \<open>parseDataset\<close> is the reading of the two files in \<open>handleImportFiles\<close>: both
  parsers, then the comparison of the two lists of names (\<open>some\<close> passes over a hole in the
  header names), before the dataset is accepted with the names of the variables file.
\<close>

definition parseCsvVariables ::
  "(string \<Rightarrow> cell jsarray list) \<Rightarrow> (jsnum \<Rightarrow> string) \<Rightarrow> string \<Rightarrow> importError + string list" where
  "parseCsvVariables reader str text =
     (let rows = reader text; names = parseVariablesRows str rows
      in if names = [] then Inl NoValidNames else Inr names)"

definition parseCsvMatrix ::
  "(string \<Rightarrow> jsnum) \<Rightarrow> (string \<Rightarrow> cell jsarray list) \<Rightarrow> (jsnum \<Rightarrow> string) \<Rightarrow> string \<Rightarrow>
     importError + ParsedDataset" where
  "parseCsvMatrix num reader str text = (let rows = reader text in parseMatrixTable num str rows)"

definition parseDataset ::
  "(string \<Rightarrow> jsnum) \<Rightarrow> (string \<Rightarrow> cell jsarray list) \<Rightarrow> (jsnum \<Rightarrow> string) \<Rightarrow> string \<Rightarrow> string \<Rightarrow>
     importError + ParsedDataset" where
  "parseDataset num reader str varsText matrixText =
     (case parseCsvVariables reader str varsText of
        Inl e \<Rightarrow> Inl e
      | Inr names \<Rightarrow>
          (case parseCsvMatrix num reader str matrixText of
             Inl e \<Rightarrow> Inl e
           | Inr parsed \<Rightarrow>
               if length names \<noteq> length (variables parsed) then Inl CountMismatch
               else if list_ex (\<lambda>idx. case variables parsed ! idx of
                                         None \<Rightarrow> False
                                       | Some name \<Rightarrow> name \<noteq> names ! idx)
                         [0..<length (variables parsed)]
               then Inl HeaderMismatch
               else Inr \<lparr>variables = map Some names, matrix = matrix parsed\<rparr>))"

text \<open>
  \<open>datasetToCsvFiles\<close> returns the two files; a file is modelled by its text. \<open>joinWith\<close> is
  \<open>join\<close> on the texts of the elements, and \<open>slotText\<close> is the text \<open>join\<close> gives to an
  element: nothing for a hole (which the spread has turned into \<open>undefined\<close>), the string
  itself, or \<open>String(v)\<close> for a number. Nothing is quoted. The variables file is the line
  "name" and one line for each name. The matrix file is the header line (an empty first
  field, then the names) and one line for each name: the name and the numbers of its matrix
  row (no numbers when the matrix has no such row); \<open>map\<close> passes over a hole among the
  names, whose line is then empty.
\<close>

fun joinWith :: "string \<Rightarrow> string list \<Rightarrow> string" where
  "joinWith sep [] = []"
| "joinWith sep [x] = x"
| "joinWith sep (x # y # zs) = x @ sep @ joinWith sep (y # zs)"

definition slotText :: "('a \<Rightarrow> string) \<Rightarrow> 'a option \<Rightarrow> string" where
  "slotText f slot = (case slot of None \<Rightarrow> [] | Some x \<Rightarrow> f x)"

definition datasetToCsvFiles :: "(jsnum \<Rightarrow> string) \<Rightarrow> ParsedDataset \<Rightarrow> string \<times> string" where
  "datasetToCsvFiles str data =
     (let varsContent = joinWith [CHR 0x0A] (''name'' # map (slotText (\<lambda>name. name)) (variables data));
          header = joinWith '','' ([] # map (slotText (\<lambda>name. name)) (variables data));
          body = map (\<lambda>idx. case variables data ! idx of
                         None \<Rightarrow> []
                       | Some name \<Rightarrow>
                           joinWith '','' (name # map (slotText str)
                             (if idx < length (matrix data) then matrix data ! idx else [])))
                   [0..<length (variables data)];
          matrixContent = joinWith [CHR 0x0A] (header # body)
      in (varsContent, matrixContent))"

section \<open>Editing the matrix\<close>

text \<open>
  \<open>setCell\<close> and the effect that rebuilds the matrix when the number of variables changes,
  as functions from the previous matrix to the next.
\<close>

definition setCell :: "nat \<Rightarrow> nat \<Rightarrow> jsnum \<Rightarrow> matrix \<Rightarrow> matrix" where
  "setCell i j v prev =
     map (\<lambda>rIndex. map (\<lambda>cIndex.
            if rIndex = i \<and> cIndex = j then (if i = j then Fin 0 else v) else prev ! rIndex ! cIndex)
          [0..<length (prev ! rIndex)])
       [0..<length prev]"

definition resizeMatrix :: "nat \<Rightarrow> matrix \<Rightarrow> matrix" where
  "resizeMatrix n prev =
     map (\<lambda>i. map (\<lambda>j. if i = j then Fin 0 else orZero (cellAt prev i j)) [0..<n]) [0..<n]"

section \<open>Loading the influence graph\<close>

text \<open>
  The part of the page state that \<open>loadGraph\<close> reads and writes. The request to the remote
  service is a parameter: \<open>server pid minWeight directed\<close> is what \<open>requestJson\<close> gives for
  the graph of project \<open>pid\<close>, a message (the error thrown) or the graph. \<open>loadGraph\<close> returns
  the state once the request has settled.
\<close>

record GraphNode =
  node_id :: nat
  name :: string

record GraphLink =
  source :: nat
  target :: nat
  weight :: jsnum

record GraphOut =
  nodes :: "GraphNode list"
  links :: "GraphLink list"

record PageState =
  projectId :: "nat option"
  graph :: "GraphOut option"
  graphError :: "string option"
  graphLoading :: bool

definition loadGraph ::
  "(nat \<Rightarrow> jsnum \<Rightarrow> bool \<Rightarrow> string + GraphOut) \<Rightarrow> PageState \<Rightarrow> jsnum \<Rightarrow> bool \<Rightarrow> PageState" where
  "loadGraph server st minWeight isDirected =
     (case projectId st of
        None \<Rightarrow> st
      | Some pid \<Rightarrow>
          if pid = 0 then st
          else if \<not> isFinite minWeight \<or> js_lt minWeight (Fin 0)
          then st\<lparr>graphError := Some ''El umbral debe ser un nAmero positivo.'', graph := None\<rparr>
          else (case server pid minWeight isDirected of
                  Inr data \<Rightarrow> st\<lparr>graph := Some data, graphError := None, graphLoading := False\<rparr>
                | Inl msg \<Rightarrow> st\<lparr>graph := None, graphError := Some msg, graphLoading := False\<rparr>))"

section \<open>Conversions and a reader for the examples\<close>

text \<open>
  The examples below need a value for the two conversions and for the reader. \<open>decimalNumber\<close> is \<open>Number(s)\<close>
  on plain decimal text: surrounding white space, an optional sign, digits, and an optional
  point with digits; blank text is 0 and anything else is NaN here (the language reads
  further forms, such as exponents, which the examples do not use). \<open>integerText\<close> is
  \<open>String(v)\<close> on the whole numbers and the non-finite values; the examples have no other
  number where a name is expected, and such a number is given the text of its whole part.
\<close>

definition isDigit :: "char \<Rightarrow> bool" where
  "isDigit c = (48 \<le> (of_char c :: nat) \<and> (of_char c :: nat) \<le> 57)"

fun digitsValue :: "nat \<Rightarrow> string \<Rightarrow> nat" where
  "digitsValue acc [] = acc"
| "digitsValue acc (c # cs) = digitsValue (10 * acc + ((of_char c :: nat) - 48)) cs"

definition unsignedDecimal :: "string \<Rightarrow> jsnum" where
  "unsignedDecimal u =
     (let whole = takeWhile isDigit u; rest = dropWhile isDigit u
      in case rest of
           [] \<Rightarrow> if whole = [] then NaN else Fin (real (digitsValue 0 whole))
         | c # fracDigits \<Rightarrow>
             if c = CHR ''.'' \<and> list_all isDigit fracDigits \<and> (whole \<noteq> [] \<or> fracDigits \<noteq> [])
             then Fin (real (digitsValue 0 whole) + real (digitsValue 0 fracDigits) / 10 ^ length fracDigits)
             else NaN)"

definition decimalNumber :: "string \<Rightarrow> jsnum" where
  "decimalNumber s =
     (case trim s of
        [] \<Rightarrow> Fin 0
      | c # cs \<Rightarrow>
          if c = CHR ''-'' then (case unsignedDecimal cs of Fin v \<Rightarrow> Fin (- v) | w \<Rightarrow> w)
          else if c = CHR ''+'' then unsignedDecimal cs
          else unsignedDecimal (c # cs))"

fun natText :: "nat \<Rightarrow> nat \<Rightarrow> string" where
  "natText 0 n = []"
| "natText (Suc fuel) n =
     (if n < 10 then [char_of (48 + n)] else natText fuel (n div 10) @ [char_of (48 + n mod 10)])"

definition integerText :: "jsnum \<Rightarrow> string" where
  "integerText v =
     (case v of
        NaN \<Rightarrow> ''NaN''
      | PInf \<Rightarrow> ''Infinity''
      | NInf \<Rightarrow> ''-Infinity''
      | Fin r \<Rightarrow> (let n = nat \<lfloor>\<bar>r\<bar>\<rfloor>
                  in (if r < 0 \<and> n \<noteq> 0 then ''-'' else []) @ natText (Suc n) n))"

text \<open>
  \<open>plainReader\<close> reads delimited text the plain way: lines at the line feed, fields at the
  comma, an empty field as a hole, a field of decimal text as its number, any other field
  as a string, and a line without any field left out. The library's reader does more
  (quoted fields, dates, booleans); the examples use none of it.
\<close>

fun splitAt :: "char \<Rightarrow> string \<Rightarrow> string list" where
  "splitAt sep [] = [[]]"
| "splitAt sep (c # cs) =
     (if c = sep then [] # splitAt sep cs
      else (case splitAt sep cs of [] \<Rightarrow> [[c]] | w # ws \<Rightarrow> (c # w) # ws))"

definition plainCell :: "string \<Rightarrow> cell option" where
  "plainCell field =
     (if field = [] then None
      else if trim field \<noteq> [] \<and> isFinite (decimalNumber field) then Some (CNum (decimalNumber field))
      else Some (CStr field))"

definition plainReader :: "string \<Rightarrow> cell jsarray list" where
  "plainReader text =
     filter (list_ex (\<lambda>slot. slot \<noteq> None))
       (map (\<lambda>line. map plainCell (splitAt CHR '','' line)) (splitAt CHR 0x0A text))"

section \<open>What the specification says of the engine\<close>

text \<open>
  The sums and the mean as the specification words them, to be compared with what the
  loops compute. \<open>js_sum\<close> adds from the left, starting at 0. The sums of a square matrix
  read its cells directly; the window sums read an absent cell as 0, as the engine does.
\<close>

definition js_sum :: "jsnum list \<Rightarrow> jsnum" where
  "js_sum vs = foldl js_add (Fin 0) vs"

definition squareMatrix :: "nat \<Rightarrow> matrix \<Rightarrow> bool" where
  "squareMatrix n m = (length m = n \<and> list_all (\<lambda>row. length row = n) m)"





definition windowColumnSum :: "matrix \<Rightarrow> nat \<Rightarrow> jsnum" where
  "windowColumnSum m j = js_sum (map (\<lambda>i. orZero (cellAt m i j)) (filter (\<lambda>i. i \<noteq> j) [0..<length m]))"

definition windowRowSum :: "matrix \<Rightarrow> nat \<Rightarrow> jsnum" where
  "windowRowSum m i = js_sum (map (\<lambda>j. orZero (cellAt m i j)) (filter (\<lambda>j. j \<noteq> i) [0..<length m]))"


text \<open>
  The sums that would ignore the cells that are not finite, for comparison with what the
  engine returns on a matrix that holds such a cell.
\<close>

definition finiteOnlyRowSum :: "matrix \<Rightarrow> nat \<Rightarrow> jsnum" where
  "finiteOnlyRowSum m i =
     js_sum (filter isFinite (map (\<lambda>j. m ! i ! j) (filter (\<lambda>j. j \<noteq> i) [0..<length m])))"

definition finiteOnlyColumnSum :: "matrix \<Rightarrow> nat \<Rightarrow> jsnum" where
  "finiteOnlyColumnSum m j =
     js_sum (filter isFinite (map (\<lambda>i. m ! i ! j) (filter (\<lambda>i. i \<noteq> j) [0..<length m])))"

section \<open>What the specification says of the importer\<close>


text \<open>
  The invariant of the stored matrix: every diagonal cell that exists is 0. The datasets
  the round trip is about: at least one name, every name non-blank and free of surrounding
  white space, and an n by n matrix of finite numbers; \<open>datasetOf\<close> is such a dataset as a
  value of the parser's type, its arrays without holes. And what the round trip asks of the
  reader: for the two texts written for the dataset it returns the cells that were written,
  each name as a string and each number as that number (the first slot of the header row
  may be anything).
\<close>

definition zeroDiagonal :: "matrix \<Rightarrow> bool" where
  "zeroDiagonal m =
     list_all (\<lambda>i. case cellAt m i i of None \<Rightarrow> True | Some v \<Rightarrow> v = Fin 0) [0..<length m]"

definition validDataset :: "string list \<Rightarrow> matrix \<Rightarrow> bool" where
  "validDataset names m =
     (names \<noteq> []
      \<and> list_all (\<lambda>v. v \<noteq> [] \<and> trim v = v) names
      \<and> squareMatrix (length names) m
      \<and> list_all (list_all isFinite) m)"

definition datasetOf :: "string list \<Rightarrow> matrix \<Rightarrow> ParsedDataset" where
  "datasetOf names m = \<lparr>variables = map Some names, matrix = map (map Some) m\<rparr>"




section \<open>The loops of the engine\<close>

lemma addCell_fold_length:
  "length (fst (fold (addCell m i) js s)) = length (fst s) \<and>
   length (snd (fold (addCell m i) js s)) = length (snd s)"
  by (induction js arbitrary: s) (auto simp: addCell_def Let_def)

lemma addCell_fold_driving:
  "i < length (snd s) \<Longrightarrow>
   snd (fold (addCell m i) js s) =
     (snd s)[i := foldl js_add (snd s ! i) (map (\<lambda>j. orZero (cellAt m i j)) (filter (\<lambda>j. j \<noteq> i) js))]"
  by (induction js arbitrary: s) (auto simp: addCell_def Let_def)

lemma addCell_fold_dependency:
  "distinct js \<Longrightarrow> \<forall>j\<in>set js. j < length (fst s) \<Longrightarrow> k < length (fst s) \<Longrightarrow>
   fst (fold (addCell m i) js s) ! k =
     (if k \<in> set js \<and> k \<noteq> i then js_add (fst s ! k) (orZero (cellAt m i k)) else fst s ! k)"
proof (induction js arbitrary: s)
  case Nil
  then show ?case by simp
next
  case (Cons a js)
  obtain dep drv where s: "s = (dep, drv)" by (cases s)
  show ?case
  proof (cases "i = a")
    case True
    with Cons s show ?thesis by (auto simp: addCell_def)
  next
    case False
    let ?s' = "(dep[a := js_add (dep ! a) (orZero (cellAt m i a))], drv[i := js_add (drv ! i) (orZero (cellAt m i a))])"
    have step: "fold (addCell m i) (a # js) s = fold (addCell m i) js ?s'"
      using False s by (simp add: addCell_def Let_def)
    have "fst (fold (addCell m i) js ?s') ! k =
      (if k \<in> set js \<and> k \<noteq> i then js_add (fst ?s' ! k) (orZero (cellAt m i k)) else fst ?s' ! k)"
      using Cons.prems s by (intro Cons.IH) auto
    then show ?thesis
      using Cons.prems s False unfolding step by (auto simp: nth_list_update)
  qed
qed

lemma rowLoop_length:
  "length (fst (rowLoop m n i s)) = length (fst s) \<and> length (snd (rowLoop m n i s)) = length (snd s)"
  by (simp add: rowLoop_def addCell_fold_length)

lemma rowLoop_dependency:
  "length (fst s) = n \<Longrightarrow> k < n \<Longrightarrow>
   fst (rowLoop m n i s) ! k = (if k \<noteq> i then js_add (fst s ! k) (orZero (cellAt m i k)) else fst s ! k)"
  unfolding rowLoop_def by (subst addCell_fold_dependency) auto

lemma rowLoop_driving:
  "i < length (snd s) \<Longrightarrow>
   snd (rowLoop m n i s) =
     (snd s)[i := foldl js_add (snd s ! i) (map (\<lambda>j. orZero (cellAt m i j)) (filter (\<lambda>j. j \<noteq> i) [0..<n]))]"
  unfolding rowLoop_def by (rule addCell_fold_driving)

lemma rows_length:
  "length (fst (fold (rowLoop m n) is s)) = length (fst s) \<and> length (snd (fold (rowLoop m n) is s)) = length (snd s)"
  by (induction "is" arbitrary: s) (auto simp: rowLoop_length)

lemma rows_dependency:
  "length (fst s) = n \<Longrightarrow> k < n \<Longrightarrow>
   fst (fold (rowLoop m n) is s) ! k =
     foldl js_add (fst s ! k) (map (\<lambda>i. orZero (cellAt m i k)) (filter (\<lambda>i. i \<noteq> k) is))"
  by (induction "is" arbitrary: s) (auto simp: rowLoop_length rowLoop_dependency)

lemma rows_driving:
  "length (snd s) = n \<Longrightarrow> distinct is \<Longrightarrow> \<forall>i\<in>set is. i < n \<Longrightarrow> k < n \<Longrightarrow>
   snd (fold (rowLoop m n) is s) ! k =
     (if k \<in> set is
      then foldl js_add (snd s ! k) (map (\<lambda>j. orZero (cellAt m k j)) (filter (\<lambda>j. j \<noteq> k) [0..<n]))
      else snd s ! k)"
  by (induction "is" arbitrary: s) (auto simp: rowLoop_length rowLoop_driving nth_list_update)

lemma computeXY_length:
  "length (fst (computeXY m)) = length m \<and> length (snd (computeXY m)) = length m"
  by (simp add: computeXY_def Let_def rows_length)

lemma computeXY_dependency: "k < length m \<Longrightarrow> fst (computeXY m) ! k = windowColumnSum m k"
  unfolding computeXY_def Let_def windowColumnSum_def js_sum_def by (subst rows_dependency) auto

lemma computeXY_driving: "k < length m \<Longrightarrow> snd (computeXY m) ! k = windowRowSum m k"
  unfolding computeXY_def Let_def windowRowSum_def js_sum_def by (subst rows_driving) auto

lemma square_cellAt:
  "squareMatrix n m \<Longrightarrow> i < n \<Longrightarrow> j < n \<Longrightarrow> cellAt m i j = Some (m ! i ! j)"
  by (auto simp: squareMatrix_def cellAt_def list_all_length)



lemma buildPreviewResult_Some:
  "buildPreviewResult vars m = Some r \<Longrightarrow>
     vars \<noteq> [] \<and> length m = length vars \<and> hasValue m (length vars) \<and>
     ComputeOut.variables r = vars \<and>
     dependencia_x r = fst (computeXY m) \<and> motricidad_y r = snd (computeXY m) \<and>
     x_cut r = computeCut (fst (computeXY m)) \<and> y_cut r = computeCut (snd (computeXY m)) \<and>
     quadrants r = fold (\<lambda>i q. q(vars ! i \<mapsto>
        quadrantLabel (fst (computeXY m) ! i) (snd (computeXY m) ! i)
          (computeCut (fst (computeXY m))) (computeCut (snd (computeXY m))))) [0..<length vars] Map.empty"
  by (auto simp: buildPreviewResult_def Let_def split: if_splits)

lemma hasValue_iff:
  "hasValue m n = (\<exists>i<n. \<exists>j<n. i \<noteq> j \<and> finiteNonZeroAt m i j)"
  unfolding hasValue_def list_ex_iff by (simp add: Bex_def)












section \<open>When the engine gives no result\<close>

lemma quadrants_fold_dom:
  "dom (fold (\<lambda>i q. q(f i \<mapsto> g i)) is q) = dom q \<union> f ` set is"
  by (induction "is" arbitrary: q) auto

lemma buildPreviewResult_quadrants_dom:
  assumes "buildPreviewResult vars m = Some r"
  shows "dom (quadrants r) = set vars"
proof -
  have "(\<lambda>i. vars ! i) ` set [0..<length vars] = set (map (\<lambda>i. vars ! i) [0..<length vars])"
    by (simp only: set_map)
  then have s: "(\<lambda>i. vars ! i) ` set [0..<length vars] = set vars"
    by (simp only: map_nth)
  have "dom (quadrants r) = dom (Map.empty :: string \<rightharpoonup> string) \<union> (\<lambda>i. vars ! i) ` set [0..<length vars]"
    using buildPreviewResult_Some[OF assms] by (simp only: quadrants_fold_dom)
  then show ?thesis by (simp only: s) simp
qed

text \<open>
  C2, as the code has it. \<open>buildPreviewResult\<close> returns no result exactly when the variable
  list is empty, or the number of rows of the matrix differs from the number of variables,
  or no cell off the diagonal in the first n columns of those rows is finite and not 0 (an
  absent cell counts as no value). It compares only the number of rows with n: the length of
  a row is never checked. For a square matrix this is the condition of the specification:
  no variable, or every cell off the diagonal 0 or not finite. Every other input gets a
  full result: the variable list, both
  vectors of length n and a quadrant for every name. The function is total, so nothing is
  thrown.
\<close>

theorem no_result_condition:
  "((buildPreviewResult vars m = None) =
     (vars = [] \<or> length m \<noteq> length vars \<or>
      \<not> (\<exists>i<length vars. \<exists>j<length vars. i \<noteq> j \<and> finiteNonZeroAt m i j)))
   \<and> (squareMatrix (length vars) m \<longrightarrow>
        (buildPreviewResult vars m = None) =
          (vars = [] \<or> (\<forall>i<length vars. \<forall>j<length vars. i \<noteq> j \<longrightarrow>
              \<not> isFinite (m ! i ! j) \<or> m ! i ! j = Fin 0)))
   \<and> (buildPreviewResult vars m \<noteq> None \<longrightarrow>
     (\<exists>r. buildPreviewResult vars m = Some r \<and> ComputeOut.variables r = vars
       \<and> length (dependencia_x r) = length vars \<and> length (motricidad_y r) = length vars
       \<and> dom (quadrants r) = set vars))"
proof (intro conjI impI)
  show gen: "(buildPreviewResult vars m = None) =
     (vars = [] \<or> length m \<noteq> length vars \<or>
      \<not> (\<exists>i<length vars. \<exists>j<length vars. i \<noteq> j \<and> finiteNonZeroAt m i j))"
    by (simp add: buildPreviewResult_def Let_def hasValue_iff)
  show "(buildPreviewResult vars m = None) =
          (vars = [] \<or> (\<forall>i<length vars. \<forall>j<length vars. i \<noteq> j \<longrightarrow>
              \<not> isFinite (m ! i ! j) \<or> m ! i ! j = Fin 0))"
    if sq: "squareMatrix (length vars) m"
  proof -
    have "finiteNonZeroAt m i j = (isFinite (m ! i ! j) \<and> m ! i ! j \<noteq> Fin 0)"
      if "i < length vars" "j < length vars" for i j
      using square_cellAt[OF sq that] by (simp add: finiteNonZeroAt_def)
    moreover have "length m = length vars" using sq by (simp add: squareMatrix_def)
    ultimately show ?thesis unfolding gen by auto
  qed
next
  assume "buildPreviewResult vars m \<noteq> None"
  then obtain r where r: "buildPreviewResult vars m = Some r" by blast
  note b = buildPreviewResult_Some[OF r]
  show "\<exists>r. buildPreviewResult vars m = Some r \<and> ComputeOut.variables r = vars
       \<and> length (dependencia_x r) = length vars \<and> length (motricidad_y r) = length vars
       \<and> dom (quadrants r) = set vars"
    using r b buildPreviewResult_quadrants_dom[OF r] by (simp add: computeXY_length)
qed

theorem no_result_condition_witness:
  "buildPreviewResult [''A'', ''B''] [[Fin 0, Fin 1], [Fin 0]] \<noteq> None
   \<and> (\<exists>r. buildPreviewResult [''A'', ''B''] [[Fin 0, Fin 1], [Fin 0]] = Some r
        \<and> ComputeOut.variables r = [''A'', ''B''] \<and> length (dependencia_x r) = 2
        \<and> dom (quadrants r) = {''A'', ''B''})
   \<and> buildPreviewResult [''A'', ''B''] [[Fin 0, Fin 0], [NaN, Fin 7]] = None
   \<and> buildPreviewResult [''A'', ''B''] [[Fin 0, Fin 1]] = None
   \<and> buildPreviewResult [] [] = None"
proof -
  let ?m = "[[Fin 0, Fin 1], [Fin 0]]"
  let ?vars = "[''A'', ''B'']"
  have run: "buildPreviewResult ?vars ?m \<noteq> None"
    by (simp add: buildPreviewResult_def hasValue_def finiteNonZeroAt_def cellAt_def upt_rec Let_def)
  have "buildPreviewResult ?vars ?m \<noteq> None \<longrightarrow>
     (\<exists>r. buildPreviewResult ?vars ?m = Some r \<and> ComputeOut.variables r = ?vars
       \<and> length (dependencia_x r) = length ?vars \<and> length (motricidad_y r) = length ?vars
       \<and> dom (quadrants r) = set ?vars)"
    using no_result_condition[of ?vars ?m] by blast
  then obtain r where r: "buildPreviewResult ?vars ?m = Some r" "ComputeOut.variables r = ?vars"
      "length (dependencia_x r) = length ?vars" "dom (quadrants r) = set ?vars"
    using run by blast
  have l: "length (dependencia_x r) = 2" using r(3) by simp
  have d: "dom (quadrants r) = {''A'', ''B''}" using r(4) by simp
  have full: "\<exists>r. buildPreviewResult ?vars ?m = Some r
        \<and> ComputeOut.variables r = ?vars \<and> length (dependencia_x r) = 2
        \<and> dom (quadrants r) = {''A'', ''B''}"
    using r(1,2) l d by (intro exI[of _ r] conjI)
  have none1: "buildPreviewResult ?vars [[Fin 0, Fin 0], [NaN, Fin 7]] = None"
    by (simp add: buildPreviewResult_def hasValue_def finiteNonZeroAt_def cellAt_def upt_rec Let_def)
  have none2: "buildPreviewResult ?vars [[Fin 0, Fin 1]] = None"
    by (simp add: buildPreviewResult_def)
  have none3: "buildPreviewResult [] [] = None"
    by (simp add: buildPreviewResult_def)
  show ?thesis using run full none1 none2 none3 by (intro conjI)
qed

text \<open>
  The specification has no result whenever the matrix is not square. Two variables with
  the rows [0, 1] and [0] are not a square matrix, and the engine returns a result for them.
\<close>

theorem ragged_counterexample:
  "buildPreviewResult [''A'', ''B''] [[Fin 0, Fin 1], [Fin 0]] \<noteq> None
   \<and> \<not> squareMatrix 2 [[Fin 0, Fin 1], [Fin 0]]"
  by (simp add: buildPreviewResult_def hasValue_def finiteNonZeroAt_def cellAt_def upt_rec Let_def squareMatrix_def)


section \<open>Quadrants\<close>

lemma quadrants_fold_other:
  "k \<notin> f ` set is \<Longrightarrow> fold (\<lambda>i q. q(f i \<mapsto> g i)) is q k = q k"
  by (induction "is" arbitrary: q) auto

lemma quadrants_fold_distinct:
  "distinct (map f is) \<Longrightarrow> k \<in> set is \<Longrightarrow>
   fold (\<lambda>i q. q(f i \<mapsto> g i)) is q (f k) = Some (g k)"
  by (induction "is" arbitrary: q) (auto simp: quadrants_fold_other)

lemma buildPreviewResult_quadrant:
  assumes "buildPreviewResult vars m = Some r" and "distinct vars" and "i < length vars"
  shows "quadrants r (vars ! i) =
    Some (quadrantLabel (dependencia_x r ! i) (motricidad_y r ! i) (x_cut r) (y_cut r))"
proof -
  note b = buildPreviewResult_Some[OF assms(1)]
  have d: "distinct (map (\<lambda>i. vars ! i) [0..<length vars])"
    using assms(2) by (simp only: map_nth)
  have k: "i \<in> set [0..<length vars]" using assms(3) by simp
  show ?thesis
    using b quadrants_fold_distinct[OF d k] by simp
qed

lemma quadrantLabel_cases:
  "(js_ge y yCut \<and> js_lt x xCut \<longrightarrow> quadrantLabel x y xCut yCut = ''Determinante'')
   \<and> (js_ge y yCut \<and> js_ge x xCut \<longrightarrow> quadrantLabel x y xCut yCut = ''Reguladora'')
   \<and> (js_lt y yCut \<and> js_ge x xCut \<longrightarrow> quadrantLabel x y xCut yCut = ''Resultado'')
   \<and> (js_lt y yCut \<and> js_lt x xCut \<longrightarrow> quadrantLabel x y xCut yCut = ''Autonoma'')"
  by (auto simp: quadrantLabel_def js_ge_def)

lemma js_eq_imp_ge: "js_eq a b \<Longrightarrow> js_ge a b"
  by (cases a; cases b) (auto simp: js_eq_def js_ge_def)

lemma quadrantLabel_ties:
  "(js_eq x xCut \<and> js_eq y yCut \<longrightarrow> quadrantLabel x y xCut yCut = ''Reguladora'')
   \<and> (js_eq x xCut \<and> (js_ge y yCut \<or> js_lt y yCut) \<longrightarrow>
        quadrantLabel x y xCut yCut \<in> {''Reguladora'', ''Resultado''})
   \<and> (js_eq y yCut \<and> (js_ge x xCut \<or> js_lt x xCut) \<longrightarrow>
        quadrantLabel x y xCut yCut \<in> {''Reguladora'', ''Determinante''})"
  using js_eq_imp_ge[of x xCut] js_eq_imp_ge[of y yCut]
  by (auto simp: quadrantLabel_def js_ge_def)

text \<open>
  C3. \<open>quadrantLabel\<close> is a function of the two indices and the two cuts alone, with the
  four cases of the specification; a variable whose two indices equal their cuts is
  Reguladora; a tie on one axis goes to the high side of that axis whenever the other
  index compares with its cut at all (\<open>===\<close>, \<open>>=\<close> and \<open><\<close> are the comparisons of the
  language, all false on NaN). In the result of the engine, the quadrant stored for the
  variable at position i is this function of entry i of the two vectors and of the two cuts,
  the names being distinct.
\<close>

theorem quadrant_rule:
  "(js_ge y yCut \<and> js_lt x xCut \<longrightarrow> quadrantLabel x y xCut yCut = ''Determinante'')
   \<and> (js_ge y yCut \<and> js_ge x xCut \<longrightarrow> quadrantLabel x y xCut yCut = ''Reguladora'')
   \<and> (js_lt y yCut \<and> js_ge x xCut \<longrightarrow> quadrantLabel x y xCut yCut = ''Resultado'')
   \<and> (js_lt y yCut \<and> js_lt x xCut \<longrightarrow> quadrantLabel x y xCut yCut = ''Autonoma'')
   \<and> (js_eq x xCut \<and> js_eq y yCut \<longrightarrow> quadrantLabel x y xCut yCut = ''Reguladora'')
   \<and> (js_eq x xCut \<and> (js_ge y yCut \<or> js_lt y yCut) \<longrightarrow>
        quadrantLabel x y xCut yCut \<in> {''Reguladora'', ''Resultado''})
   \<and> (js_eq y yCut \<and> (js_ge x xCut \<or> js_lt x xCut) \<longrightarrow>
        quadrantLabel x y xCut yCut \<in> {''Reguladora'', ''Determinante''})
   \<and> (buildPreviewResult vars m = Some r \<and> distinct vars \<and> i < length vars \<longrightarrow>
        quadrants r (vars ! i) =
          Some (quadrantLabel (dependencia_x r ! i) (motricidad_y r ! i) (x_cut r) (y_cut r)))"
  using quadrantLabel_cases[of y yCut x xCut] quadrantLabel_ties[of x xCut y yCut]
    buildPreviewResult_quadrant[of vars m r i]
  by blast

theorem quadrant_rule_witness:
  "js_ge (Fin 5) (Fin (8 / 3)) \<and> js_lt (Fin 2) (Fin (8 / 3))
   \<and> quadrantLabel (Fin 2) (Fin 5) (Fin (8 / 3)) (Fin (8 / 3)) = ''Determinante''
   \<and> js_lt (Fin 1) (Fin (8 / 3)) \<and> js_ge (Fin 5) (Fin (8 / 3))
   \<and> quadrantLabel (Fin 5) (Fin 1) (Fin (8 / 3)) (Fin (8 / 3)) = ''Resultado''
   \<and> js_eq (Fin 3) (Fin 3) \<and> js_eq (Fin 4) (Fin 4)
   \<and> quadrantLabel (Fin 3) (Fin 4) (Fin 3) (Fin 4) = ''Reguladora''
   \<and> quadrantLabel (Fin 1) (Fin 2) (Fin (8 / 3)) (Fin (8 / 3)) = ''Autonoma''
   \<and> (\<exists>r. buildPreviewResult [''A'', ''B'', ''C'']
          [[Fin 0, Fin 2, Fin 0], [Fin 0, Fin 0, Fin 5], [Fin 1, Fin 0, Fin 0]] = Some r
        \<and> quadrants r ''B'' = Some ''Determinante'')"
proof -
  let ?m = "[[Fin 0, Fin 2, Fin 0], [Fin 0, Fin 0, Fin 5], [Fin 1, Fin 0, Fin 0]]"
  let ?vars = "[''A'', ''B'', ''C'']"
  have c1: "js_ge (Fin 5) (Fin (8 / 3)) \<and> js_lt (Fin 2) (Fin (8 / 3))" by (simp add: js_ge_def)
  have c2: "js_lt (Fin 1) (Fin (8 / 3)) \<and> js_ge (Fin 5) (Fin (8 / 3))" by (simp add: js_ge_def)
  have c3: "js_eq (Fin 3) (Fin 3) \<and> js_eq (Fin 4) (Fin 4)" by (simp add: js_eq_def)
  have c4: "js_lt (Fin 2) (Fin (8 / 3)) \<and> js_lt (Fin 1) (Fin (8 / 3))" by simp
  have l1: "quadrantLabel (Fin 2) (Fin 5) (Fin (8 / 3)) (Fin (8 / 3)) = ''Determinante''"
    using quadrant_rule[of "Fin 5" "Fin (8 / 3)" "Fin 2" "Fin (8 / 3)"] c1 by blast
  have l2: "quadrantLabel (Fin 5) (Fin 1) (Fin (8 / 3)) (Fin (8 / 3)) = ''Resultado''"
    using quadrant_rule[of "Fin 1" "Fin (8 / 3)" "Fin 5" "Fin (8 / 3)"] c2 by blast
  have l3: "quadrantLabel (Fin 3) (Fin 4) (Fin 3) (Fin 4) = ''Reguladora''"
    using quadrant_rule[of "Fin 4" "Fin 4" "Fin 3" "Fin 3"] c3 by blast
  have l4: "quadrantLabel (Fin 1) (Fin 2) (Fin (8 / 3)) (Fin (8 / 3)) = ''Autonoma''"
    using quadrant_rule[of "Fin 2" "Fin (8 / 3)" "Fin 1" "Fin (8 / 3)"] c4 by blast
  have "buildPreviewResult ?vars ?m \<noteq> None"
    by (simp add: buildPreviewResult_def hasValue_def finiteNonZeroAt_def cellAt_def upt_rec Let_def)
  then obtain r where r: "buildPreviewResult ?vars ?m = Some r" by blast
  have vals: "fst (computeXY ?m) = [Fin 1, Fin 2, Fin 5]" "snd (computeXY ?m) = [Fin 2, Fin 5, Fin 1]"
    by (simp_all add: computeXY_def rowLoop_def addCell_def cellAt_def upt_rec Let_def)
  note b = buildPreviewResult_Some[OF r]
  have v: "dependencia_x r ! 1 = Fin 2" "motricidad_y r ! 1 = Fin 5"
       "x_cut r = Fin (8 / 3)" "y_cut r = Fin (8 / 3)"
    using b vals by (simp_all add: computeCut_def)
  have "buildPreviewResult ?vars ?m = Some r \<and> distinct ?vars \<and> 1 < length ?vars" using r by simp
  then have "quadrants r (?vars ! 1) =
      Some (quadrantLabel (dependencia_x r ! 1) (motricidad_y r ! 1) (x_cut r) (y_cut r))"
    using quadrant_rule[of _ _ _ _ ?vars ?m r 1] by blast
  then have "quadrants r ''B'' = Some ''Determinante''" using v l1 by simp
  then have e: "\<exists>r. buildPreviewResult ?vars ?m = Some r \<and> quadrants r ''B'' = Some ''Determinante''"
    using r by blast
  show ?thesis using c1 c2 c3 l1 l2 l3 l4 e by (intro conjI) (simp_all only: simp_thms)
qed

lemma foldl_js_add_NaN: "foldl js_add NaN vs = NaN"
  by (induction vs) auto

lemma js_add_NaN_right: "js_add a NaN = NaN" by (cases a) auto

lemma foldl_js_add_mem_NaN: "NaN \<in> set vs \<Longrightarrow> foldl js_add a vs = NaN"
  by (induction vs arbitrary: a) (auto simp: foldl_js_add_NaN js_add_NaN_right)

lemma js_sum_NaN: "NaN \<in> set vs \<Longrightarrow> js_sum vs = NaN"
  by (simp add: js_sum_def foldl_js_add_mem_NaN)

text \<open>
  C5, as the code has it. The sums of \<open>computeXY\<close> run over the window of the first n
  rows and the first n columns, n being the number of rows; a cell in a column from n on is
  never read. In the window only an absent cell is replaced by 0. A cell of the window that
  is present is added whatever it holds: every entry of the two vectors is the
  left-to-right sum of all the cells of its column or row in the window, the diagonal cell
  excepted, and a NaN cell of the window off the diagonal makes the driving entry of its
  row and the dependency entry of its column NaN. Nothing is thrown.
\<close>

theorem sums_keep_non_finite_cells:
  assumes "buildPreviewResult vars m = Some r"
  shows "(\<forall>j<length vars. dependencia_x r ! j = windowColumnSum m j)
    \<and> (\<forall>i<length vars. motricidad_y r ! i = windowRowSum m i)
    \<and> (\<forall>i<length vars. \<forall>j<length vars. i \<noteq> j \<and> cellAt m i j = Some NaN \<longrightarrow>
          motricidad_y r ! i = NaN \<and> dependencia_x r ! j = NaN)"
proof -
  note b = buildPreviewResult_Some[OF assms]
  have len: "length m = length vars" using b by simp
  have dep: "\<forall>j<length vars. dependencia_x r ! j = windowColumnSum m j"
    using b len by (simp add: computeXY_dependency)
  have drv: "\<forall>i<length vars. motricidad_y r ! i = windowRowSum m i"
    using b len by (simp add: computeXY_driving)
  have "windowRowSum m i = NaN \<and> windowColumnSum m j = NaN"
    if "i < length vars" "j < length vars" "i \<noteq> j" "cellAt m i j = Some NaN" for i j
  proof -
    have "NaN \<in> set (map (\<lambda>j. orZero (cellAt m i j)) (filter (\<lambda>j. j \<noteq> i) [0..<length m]))"
      using that len by (force simp: image_iff)
    moreover have "NaN \<in> set (map (\<lambda>i. orZero (cellAt m i j)) (filter (\<lambda>i. i \<noteq> j) [0..<length m]))"
      using that len by (force simp: image_iff)
    ultimately show ?thesis by (simp add: windowRowSum_def windowColumnSum_def js_sum_NaN)
  qed
  then show ?thesis using dep drv by simp
qed


theorem sums_keep_non_finite_cells_witness:
  "\<exists>r. buildPreviewResult [''A'', ''B''] [[Fin 0, NaN], [Fin 1]] = Some r
     \<and> cellAt [[Fin 0, NaN], [Fin 1]] 0 1 = Some NaN
     \<and> cellAt [[Fin 0, NaN], [Fin 1]] 1 1 = None
     \<and> motricidad_y r ! 0 = NaN \<and> dependencia_x r ! 1 = NaN
     \<and> motricidad_y r ! 1 = windowRowSum [[Fin 0, NaN], [Fin 1]] 1
     \<and> windowRowSum [[Fin 0, NaN], [Fin 1]] 1 = Fin 1"
proof -
  let ?m = "[[Fin 0, NaN], [Fin 1]]"
  let ?vars = "[''A'', ''B'']"
  have "buildPreviewResult ?vars ?m \<noteq> None"
    by (simp add: buildPreviewResult_def hasValue_def finiteNonZeroAt_def cellAt_def upt_rec Let_def)
  then obtain r where r: "buildPreviewResult ?vars ?m = Some r" by blast
  note t = sums_keep_non_finite_cells[OF r]
  have c: "cellAt ?m 0 1 = Some NaN" "cellAt ?m 1 1 = None" by (simp_all add: cellAt_def)
  have "\<forall>i<length ?vars. \<forall>j<length ?vars. i \<noteq> j \<and> cellAt ?m i j = Some NaN \<longrightarrow>
          motricidad_y r ! i = NaN \<and> dependencia_x r ! j = NaN"
    using t by blast
  then have "0 < length ?vars \<longrightarrow> 1 < length ?vars \<longrightarrow> (0::nat) \<noteq> 1 \<and> cellAt ?m 0 1 = Some NaN \<longrightarrow>
          motricidad_y r ! 0 = NaN \<and> dependencia_x r ! 1 = NaN"
    by blast
  then have n: "motricidad_y r ! 0 = NaN" "dependencia_x r ! 1 = NaN" using c by simp_all
  have "\<forall>i<length ?vars. motricidad_y r ! i = windowRowSum ?m i" using t by blast
  then have w: "motricidad_y r ! 1 = windowRowSum ?m 1" by simp
  have s: "windowRowSum ?m 1 = Fin 1"
    by (simp add: windowRowSum_def js_sum_def cellAt_def upt_rec)
  show ?thesis using r c n w s by (intro exI[of _ r] conjI)
qed

text \<open>
  The specification has a cell that is not finite add nothing. With the rows [0, NaN] and
  [1, 0] the engine returns a result whose first driving entry and second dependency entry
  are NaN, where the sums of the finite cells of that row and of that column are 0.
\<close>

theorem nan_cell_counterexample:
  "buildPreviewResult [''A'', ''B''] [[Fin 0, NaN], [Fin 1, Fin 0]] \<noteq> None
   \<and> motricidad_y (the (buildPreviewResult [''A'', ''B''] [[Fin 0, NaN], [Fin 1, Fin 0]])) ! 0 = NaN
   \<and> finiteOnlyRowSum [[Fin 0, NaN], [Fin 1, Fin 0]] 0 = Fin 0
   \<and> motricidad_y (the (buildPreviewResult [''A'', ''B''] [[Fin 0, NaN], [Fin 1, Fin 0]])) ! 0
       \<noteq> finiteOnlyRowSum [[Fin 0, NaN], [Fin 1, Fin 0]] 0
   \<and> dependencia_x (the (buildPreviewResult [''A'', ''B''] [[Fin 0, NaN], [Fin 1, Fin 0]])) ! 1 = NaN
   \<and> finiteOnlyColumnSum [[Fin 0, NaN], [Fin 1, Fin 0]] 1 = Fin 0"
proof -
  let ?m = "[[Fin 0, NaN], [Fin 1, Fin 0]]"
  have run: "buildPreviewResult [''A'', ''B''] ?m \<noteq> None"
    by (simp add: buildPreviewResult_def hasValue_def finiteNonZeroAt_def cellAt_def upt_rec Let_def)
  then obtain r where r: "buildPreviewResult [''A'', ''B''] ?m = Some r" by blast
  have "snd (computeXY ?m) = [NaN, Fin 1]" "fst (computeXY ?m) = [Fin 1, NaN]"
    by (simp_all add: computeXY_def rowLoop_def addCell_def cellAt_def upt_rec Let_def)
  then have "motricidad_y r ! 0 = NaN" "dependencia_x r ! 1 = NaN"
    using buildPreviewResult_Some[OF r] by simp_all
  then have d: "motricidad_y (the (buildPreviewResult [''A'', ''B''] ?m)) ! 0 = NaN"
    and x: "dependencia_x (the (buildPreviewResult [''A'', ''B''] ?m)) ! 1 = NaN"
    using r by simp_all
  have f: "finiteOnlyRowSum ?m 0 = Fin 0"
    by (simp add: finiteOnlyRowSum_def js_sum_def upt_rec)
  have g: "finiteOnlyColumnSum ?m 1 = Fin 0"
    by (simp add: finiteOnlyColumnSum_def js_sum_def upt_rec)
  have ne: "motricidad_y (the (buildPreviewResult [''A'', ''B''] ?m)) ! 0 \<noteq> finiteOnlyRowSum ?m 0"
    using d f by simp
  show ?thesis using run d f ne x g by (intro conjI)
qed

text \<open>
  A cell outside the window adds nothing: with two rows of three cells, the third cell of
  each row is not part of any sum.
\<close>

lemma cells_beyond_window_not_read:
  "computeXY [[Fin 0, Fin 1, Fin 5], [Fin 2, Fin 0, NaN]] = ([Fin 2, Fin 1], [Fin 1, Fin 2])"
  by (simp add: computeXY_def rowLoop_def addCell_def cellAt_def upt_rec Let_def)

section \<open>Facts about the importer\<close>

lemma mapResult_Inr_iff:
  "(mapResult f xs = Inr ys) = (length ys = length xs \<and> (\<forall>k<length xs. f (xs ! k) = Inr (ys ! k)))"
proof (induction xs arbitrary: ys)
  case Nil
  then show ?case by auto
next
  case (Cons x xs)
  show ?case
  proof (cases ys)
    case Nil
    then show ?thesis by (auto split: sum.splits)
  next
    case (Cons y ys')
    then show ?thesis
      using Cons.IH[of ys'] by (auto split: sum.splits simp: nth_Cons' less_Suc_eq_0_disj)
  qed
qed

lemma mapResult_isl_iff: "isl (mapResult f xs) = (\<exists>x\<in>set xs. isl (f x))"
  by (induction xs) (auto split: sum.splits)

lemma mapResult_first_error:
  "k < length xs \<Longrightarrow> f (xs ! k) = Inl e \<Longrightarrow> \<forall>i<k. \<not> isl (f (xs ! i)) \<Longrightarrow> mapResult f xs = Inl e"
proof (induction xs arbitrary: k)
  case Nil
  then show ?case by simp
next
  case (Cons x xs)
  show ?case
  proof (cases k)
    case 0
    with Cons.prems show ?thesis by simp
  next
    case (Suc k')
    have x: "\<not> isl (f x)" using Cons.prems(3) Suc by auto
    have "mapResult f xs = Inl e"
      using Cons.prems Suc by (intro Cons.IH[of k']) auto
    then show ?thesis using x by (auto split: sum.splits)
  qed
qed

lemma mapResult_all_ok:
  "\<forall>x\<in>set xs. \<not> isl (f x) \<Longrightarrow> mapResult f xs = Inr (map (\<lambda>x. projr (f x)) xs)"
  by (induction xs) (auto split: sum.splits)


lemma header_check_ok:
  assumes "Some [] \<notin> set header"
  shows "mapResult (checkName header) [0..<length header] = Inr header"
proof -
  have "checkName header k = Inr (header ! k)" if "k < length header" for k
  proof (cases "header ! k")
    case None
    then show ?thesis by (simp add: checkName_def)
  next
    case (Some name)
    then have "name \<noteq> []" using assms that nth_mem[of k header] by force
    then show ?thesis using Some by (simp add: checkName_def)
  qed
  then show ?thesis by (simp add: mapResult_Inr_iff)
qed

lemma checkName_isl: "isl (checkName header k) = (header ! k = Some [])"
  by (auto simp: checkName_def split: option.splits)

lemma header_check_first_blank:
  assumes "k < length header" and "header ! k = Some []" and "\<forall>i<k. header ! i \<noteq> Some []"
  shows "mapResult (checkName header) [0..<length header] = Inl (MissingName (k + 1))"
proof (rule mapResult_first_error[where k = k])
  show "k < length [0..<length header]" using assms(1) by simp
  show "checkName header ([0..<length header] ! k) = Inl (MissingName (k + 1))"
    using assms(1,2) by (simp add: checkName_def)
  show "\<forall>i<k. \<not> isl (checkName header ([0..<length header] ! i))"
    using assms(1,3) by (simp add: checkName_isl)
qed

lemma header_check_blank:
  assumes "Some [] \<in> set header"
  shows "isl (mapResult (checkName header) [0..<length header])"
proof -
  obtain k where "k < length header" "header ! k = Some []"
    using assms by (auto simp: in_set_conv_nth)
  then have "k \<in> set [0..<length header] \<and> isl (checkName header k)"
    by (simp add: checkName_isl)
  then show ?thesis unfolding mapResult_isl_iff by blast
qed

lemma parseMatrixTable_valid_header:
  assumes "rows \<noteq> []" and "headerCells str rows \<noteq> []" and "Some [] \<notin> set (headerCells str rows)"
  shows "parseMatrixTable num str rows =
    (if length (bodyRows str rows) \<noteq> length (headerCells str rows)
     then Inl (BadSize (length (headerCells str rows)) (length (bodyRows str rows)))
     else (case mapResult (\<lambda>rowIndex.
              parseRow num str (headerCells str rows) rowIndex (bodyRows str rows ! rowIndex))
              [0..<length (bodyRows str rows)] of
             Inl e \<Rightarrow> Inl e
           | Inr m \<Rightarrow> Inr \<lparr>variables = headerCells str rows, matrix = m\<rparr>))"
  using assms by (simp add: parseMatrixTable_def Let_def header_check_ok)

lemma parseMatrixTable_bad_header:
  assumes "rows = [] \<or> headerCells str rows = [] \<or> Some [] \<in> set (headerCells str rows)"
  shows "isl (parseMatrixTable num str rows)"
proof (cases "rows = [] \<or> headerCells str rows = []")
  case True
  then show ?thesis by (auto simp: parseMatrixTable_def Let_def)
next
  case False
  then have b: "Some [] \<in> set (headerCells str rows)" using assms by blast
  show ?thesis
    using False header_check_blank[OF b]
    by (auto simp: parseMatrixTable_def Let_def split: sum.splits)
qed

text \<open>
  C7, as the code has it. A matrix table whose number of non-blank data rows differs from
  the length of its header is always rejected. The checks run in order and the first that
  fails is reported. A table whose first row has no slot after the first gets the error of
  the missing header; a table with a header cell that is there but blank gets the error
  that names the first such cell; in both cases whatever the row count. Every other table
  whose row count differs gets the size error, which carries N (the length of the header,
  for "N x N") and M (the number of data rows found). A hole in the header is not a blank
  cell: the check of the names passes over it and it counts in N. A header of A and B,
  whatever its first slot, followed by a single non-blank data row gives the size error with
  N = 2 and M = 1.
\<close>

theorem row_count_check:
  "(length (bodyRows str rows) \<noteq> length (headerCells str rows) \<longrightarrow>
      isl (parseMatrixTable num str rows))
   \<and> (rows \<noteq> [] \<and> headerCells str rows \<noteq> [] \<and> Some [] \<notin> set (headerCells str rows)
        \<and> length (bodyRows str rows) \<noteq> length (headerCells str rows) \<longrightarrow>
      parseMatrixTable num str rows =
        Inl (BadSize (length (headerCells str rows)) (length (bodyRows str rows))))
   \<and> (rows \<noteq> [] \<and> headerCells str rows = [] \<longrightarrow> parseMatrixTable num str rows = Inl NoHeader)
   \<and> (rows \<noteq> [] \<and> k < length (headerCells str rows) \<and> headerCells str rows ! k = Some []
        \<and> (\<forall>i<k. headerCells str rows ! i \<noteq> Some []) \<longrightarrow>
      parseMatrixTable num str rows = Inl (MissingName (k + 1)))
   \<and> (nonBlankRow str row \<longrightarrow>
      parseMatrixTable num str [[c0, Some (CStr ''A''), Some (CStr ''B'')], row] = Inl (BadSize 2 1))"
proof (intro conjI impI)
  assume ne: "length (bodyRows str rows) \<noteq> length (headerCells str rows)"
  show "isl (parseMatrixTable num str rows)"
  proof (cases "rows = [] \<or> headerCells str rows = [] \<or> Some [] \<in> set (headerCells str rows)")
    case True
    then show ?thesis by (rule parseMatrixTable_bad_header)
  next
    case False
    then show ?thesis using ne by (simp add: parseMatrixTable_valid_header)
  qed
next
  assume "rows \<noteq> [] \<and> headerCells str rows \<noteq> [] \<and> Some [] \<notin> set (headerCells str rows)
        \<and> length (bodyRows str rows) \<noteq> length (headerCells str rows)"
  then show "parseMatrixTable num str rows =
        Inl (BadSize (length (headerCells str rows)) (length (bodyRows str rows)))"
    by (simp add: parseMatrixTable_valid_header)
next
  assume "rows \<noteq> [] \<and> headerCells str rows = []"
  then show "parseMatrixTable num str rows = Inl NoHeader"
    by (simp add: parseMatrixTable_def)
next
  assume a: "rows \<noteq> [] \<and> k < length (headerCells str rows) \<and> headerCells str rows ! k = Some []
        \<and> (\<forall>i<k. headerCells str rows ! i \<noteq> Some [])"
  then have "mapResult (checkName (headerCells str rows)) [0..<length (headerCells str rows)]
      = Inl (MissingName (k + 1))"
    by (intro header_check_first_blank) simp_all
  moreover have "headerCells str rows \<noteq> []" using a by auto
  ultimately show "parseMatrixTable num str rows = Inl (MissingName (k + 1))"
    using a by (simp add: parseMatrixTable_def Let_def)
next
  assume nb: "nonBlankRow str row"
  let ?rows = "[[c0, Some (CStr ''A''), Some (CStr ''B'')], row]"
  have h: "headerCells str ?rows = [Some ''A'', Some ''B'']"
    by (simp add: headerCells_def stringOrEmpty_def trim_def isSpace_def)
  have b: "bodyRows str ?rows = [row]" using nb by (simp add: bodyRows_def)
  show "parseMatrixTable num str ?rows = Inl (BadSize 2 1)"
    by (subst parseMatrixTable_valid_header) (simp_all add: h b)
qed

theorem row_count_check_witness:
  "length (bodyRows integerText [[None, Some (CStr ''A''), None, Some (CStr ''B'')],
        [Some (CStr ''A''), Some (CNum (Fin 0)), None, Some (CNum (Fin 3))], [None, Some (CStr '' '')]])
     \<noteq> length (headerCells integerText [[None, Some (CStr ''A''), None, Some (CStr ''B'')],
        [Some (CStr ''A''), Some (CNum (Fin 0)), None, Some (CNum (Fin 3))], [None, Some (CStr '' '')]])
   \<and> nonBlankRow integerText [Some (CStr ''A''), Some (CNum (Fin 0)), None, Some (CNum (Fin 3))]
   \<and> parseMatrixTable decimalNumber integerText
        [[None, Some (CStr ''A''), None, Some (CStr ''B'')],
         [Some (CStr ''A''), Some (CNum (Fin 0)), None, Some (CNum (Fin 3))], [None, Some (CStr '' '')]]
       = Inl (BadSize 3 1)
   \<and> parseMatrixTable decimalNumber integerText
        [[None, Some (CStr ''A''), Some (CStr ''B'')],
         [Some (CStr ''A''), Some (CNum (Fin 0)), None, Some (CNum (Fin 3))]]
       = Inl (BadSize 2 1)
   \<and> parseMatrixTable decimalNumber integerText [[Some (CStr ''only'')], [Some (CStr ''A'')]]
       = Inl NoHeader
   \<and> parseMatrixTable decimalNumber integerText
        [[None, Some (CStr ''A''), Some CNull], [Some (CStr ''A''), Some (CNum (Fin 0))]]
       = Inl (MissingName 2)"
proof -
  let ?row = "[Some (CStr ''A''), Some (CNum (Fin 0)), None, Some (CNum (Fin 3))]"
  let ?rows = "[[None, Some (CStr ''A''), None, Some (CStr ''B'')], ?row, [None, Some (CStr '' '')]]"
  let ?num = decimalNumber and ?str = integerText
  have h: "headerCells ?str ?rows = [Some ''A'', None, Some ''B'']" by code_simp
  have b: "bodyRows ?str ?rows = [?row]" by code_simp
  have nb: "nonBlankRow ?str ?row" by code_simp
  have ne: "length (bodyRows ?str ?rows) \<noteq> length (headerCells ?str ?rows)"
    by (simp add: h b)
  have pre: "?rows \<noteq> [] \<and> headerCells ?str ?rows \<noteq> [] \<and> Some [] \<notin> set (headerCells ?str ?rows)
        \<and> length (bodyRows ?str ?rows) \<noteq> length (headerCells ?str ?rows)"
    by (simp add: h b)
  have "parseMatrixTable ?num ?str ?rows =
        Inl (BadSize (length (headerCells ?str ?rows)) (length (bodyRows ?str ?rows)))"
    using row_count_check[where str = ?str and rows = ?rows and num = ?num] pre by blast
  then have e1: "parseMatrixTable ?num ?str ?rows = Inl (BadSize 3 1)"
    by (simp add: h b)
  have e2: "parseMatrixTable ?num ?str [[None, Some (CStr ''A''), Some (CStr ''B'')], ?row] = Inl (BadSize 2 1)"
    using row_count_check[where str = ?str and num = ?num and row = ?row and ?c0.0 = None] nb by blast
  let ?r3 = "[[Some (CStr ''only'')], [Some (CStr ''A'')]]"
  have "?r3 \<noteq> [] \<and> headerCells ?str ?r3 = []" by (simp add: headerCells_def)
  then have e3: "parseMatrixTable ?num ?str ?r3 = Inl NoHeader"
    using row_count_check[where str = ?str and rows = ?r3 and num = ?num] by blast
  let ?r4 = "[[None, Some (CStr ''A''), Some CNull], [Some (CStr ''A''), Some (CNum (Fin 0))]]"
  have h4: "headerCells ?str ?r4 = [Some ''A'', Some []]" by code_simp
  have "?r4 \<noteq> [] \<and> 1 < length (headerCells ?str ?r4) \<and> headerCells ?str ?r4 ! 1 = Some []
        \<and> (\<forall>i<1. headerCells ?str ?r4 ! i \<noteq> Some [])"
    by (simp add: h4)
  then have "parseMatrixTable ?num ?str ?r4 = Inl (MissingName (1 + 1))"
    using row_count_check[where str = ?str and rows = ?r4 and num = ?num and k = 1] by blast
  then have e4: "parseMatrixTable ?num ?str ?r4 = Inl (MissingName 2)" by simp
  show ?thesis using ne nb e1 e2 e3 e4 by (intro conjI)
qed

text \<open>
  The specification has the size error for every table whose row count differs. The table
  whose header has one cell, a blank one, and that has two data rows is rejected for the
  blank name.
\<close>

theorem blank_header_counterexample:
  "headerCells integerText
       [[Some (CStr []), Some (CStr '' '')], [Some (CStr ''x''), Some (CNum (Fin 1))],
        [Some (CStr ''y''), Some (CNum (Fin 2))]]
     = [Some []]
   \<and> length (bodyRows integerText
       [[Some (CStr []), Some (CStr '' '')], [Some (CStr ''x''), Some (CNum (Fin 1))],
        [Some (CStr ''y''), Some (CNum (Fin 2))]]) = 2
   \<and> parseMatrixTable decimalNumber integerText
       [[Some (CStr []), Some (CStr '' '')], [Some (CStr ''x''), Some (CNum (Fin 1))],
        [Some (CStr ''y''), Some (CNum (Fin 2))]]
     = Inl (MissingName 1)"
  by code_simp





lemma readCell_hole: "vars ! colIndex = None \<Longrightarrow> readCell num vars rowIndex row colIndex = Inr None"
  by (simp add: readCell_def)











text \<open>
  A column whose header slot is a hole is not read. The rows that the reader returns for a
  sheet whose header line is \<open>,A,,B\<close> have a hole between A and B; the cells under the hole
  are never normalized, text in them is accepted, and the parsed matrix has a hole in every
  row at that place.
\<close>

lemma hole_column_not_read:
  "parseMatrixTable decimalNumber integerText
     [[None, Some (CStr ''A''), None, Some (CStr ''B'')],
      [Some (CStr ''A''), Some (CNum (Fin 0)), Some (CStr ''x''), Some (CNum (Fin 1))],
      [None, Some (CNum (Fin 5)), Some (CStr ''y''), Some (CNum (Fin 6))],
      [Some (CStr ''B''), Some (CNum (Fin 2)), Some (CStr ''z''), Some (CNum (Fin 0))]]
   = Inr \<lparr>variables = [Some ''A'', None, Some ''B''],
          matrix = [[Some (Fin 0), None, Some (Fin 1)],
                    [Some (Fin 5), None, Some (Fin 6)],
                    [Some (Fin 2), None, Some (Fin 0)]]\<rparr>"
  by code_simp




section \<open>The diagonal of the matrix\<close>

lemma resizeMatrix_zeroDiagonal: "zeroDiagonal (resizeMatrix n prev)"
  by (simp add: zeroDiagonal_def resizeMatrix_def list_all_iff cellAt_def)

lemma setCell_cell:
  "r < length prev \<Longrightarrow> c < length (prev ! r) \<Longrightarrow>
   setCell i j v prev ! r ! c =
     (if r = i \<and> c = j then (if i = j then Fin 0 else v) else prev ! r ! c)"
  by (simp add: setCell_def)

lemma setCell_shape:
  "length (setCell i j v prev) = length prev
   \<and> (\<forall>r<length prev. length (setCell i j v prev ! r) = length (prev ! r))"
  by (simp add: setCell_def)

lemma setCell_zeroDiagonal:
  assumes "zeroDiagonal prev"
  shows "zeroDiagonal (setCell i j v prev)"
proof -
  have z: "prev ! r ! r = Fin 0" if "r < length prev" "r < length (prev ! r)" for r
    using assms that by (auto simp: zeroDiagonal_def list_all_iff cellAt_def split: if_splits)
  have "setCell i j v prev ! r ! r = Fin 0" if "r < length prev" "r < length (prev ! r)" for r
    using that z by (simp add: setCell_cell)
  then show ?thesis
    using setCell_shape[of i j v prev] by (auto simp: zeroDiagonal_def list_all_iff cellAt_def)
qed

text \<open>
  C6. \<open>setCell\<close> and the rebuilding of the matrix keep the diagonal at 0 (the two lemmas
  above). \<open>parseMatrixTable\<close> does not: it reads the diagonal cells of the table like every
  other cell. For the table with header A, B (whatever the first slot of the header row)
  and the rows A, 5, 1 and B, 2, 7 it returns the matrix with 5 and 7 on the diagonal.
\<close>

theorem import_keeps_diagonal:
  "parseMatrixTable num str
      [[c0, Some (CStr ''A''), Some (CStr ''B'')],
       [Some (CStr ''A''), Some (CNum (Fin 5)), Some (CNum (Fin 1))],
       [Some (CStr ''B''), Some (CNum (Fin 2)), Some (CNum (Fin 7))]]
     = Inr \<lparr>variables = [Some ''A'', Some ''B''],
            matrix = [[Some (Fin 5), Some (Fin 1)], [Some (Fin 2), Some (Fin 7)]]\<rparr>
   \<and> \<not> zeroDiagonal [[Fin 5, Fin 1], [Fin 2, Fin 7]]"
proof
  show "parseMatrixTable num str
      [[c0, Some (CStr ''A''), Some (CStr ''B'')],
       [Some (CStr ''A''), Some (CNum (Fin 5)), Some (CNum (Fin 1))],
       [Some (CStr ''B''), Some (CNum (Fin 2)), Some (CNum (Fin 7))]]
     = Inr \<lparr>variables = [Some ''A'', Some ''B''],
            matrix = [[Some (Fin 5), Some (Fin 1)], [Some (Fin 2), Some (Fin 7)]]\<rparr>"
    by code_simp
  show "\<not> zeroDiagonal [[Fin 5, Fin 1], [Fin 2, Fin 7]]"
    by code_simp
qed

section \<open>Writing a dataset and reading it back\<close>















text \<open>
  Names that the written text does not carry. A comma in a name is written as it is, and
  the reader that splits at the commas finds a header of two names over a single data row.
\<close>

lemma comma_name_not_read_back:
  "validDataset [''A,B''] [[Fin 0]]
   \<and> datasetToCsvFiles integerText (datasetOf [''A,B''] [[Fin 0]])
       = (''name\<newline>A,B'', '',A,B\<newline>A,B,0'')
   \<and> parseDataset decimalNumber plainReader integerText ''name\<newline>A,B'' '',A,B\<newline>A,B,0''
       = Inl (BadSize 2 1)"
proof -
  have v: "validDataset [''A,B''] [[Fin 0]]"
    by (simp add: validDataset_def squareMatrix_def trim_def isSpace_def)
  have f: "datasetToCsvFiles integerText (datasetOf [''A,B''] [[Fin 0]])
       = (''name\<newline>A,B'', '',A,B\<newline>A,B,0'')"
    by code_simp
  have p: "parseDataset decimalNumber plainReader integerText ''name\<newline>A,B'' '',A,B\<newline>A,B,0''
       = Inl (BadSize 2 1)"
    by code_simp
  show ?thesis using v f p by (intro conjI)
qed


section \<open>The threshold of the graph\<close>

text \<open>
  C9, as the code has it. \<open>loadGraph\<close> first returns, leaving the state as it is, when no
  project is selected. For a selected project, a \<open>minWeight\<close> that is not finite or is
  below 0 sets the error message of the graph and clears the graph, and the remote service
  is not asked; a finite \<open>minWeight\<close> of 0 or more passes the check, and the state is then
  what the answer of the service makes it: the graph and no error, or the message of the
  failure and no graph.
\<close>

theorem threshold_validation:
  assumes "projectId st = Some pid" and "pid \<noteq> 0"
  shows "(\<not> isFinite minWeight \<or> js_lt minWeight (Fin 0) \<longrightarrow>
           loadGraph server st minWeight isDirected =
             st\<lparr>graphError := Some ''El umbral debe ser un nAmero positivo.'', graph := None\<rparr>
           \<and> graphError (loadGraph server st minWeight isDirected) \<noteq> None
           \<and> graph (loadGraph server st minWeight isDirected) = None)
    \<and> (isFinite minWeight \<and> \<not> js_lt minWeight (Fin 0) \<longrightarrow>
           loadGraph server st minWeight isDirected =
             (case server pid minWeight isDirected of
                Inr data \<Rightarrow> st\<lparr>graph := Some data, graphError := None, graphLoading := False\<rparr>
              | Inl msg \<Rightarrow> st\<lparr>graph := None, graphError := Some msg, graphLoading := False\<rparr>))
    \<and> (isFinite minWeight \<and> \<not> js_lt minWeight (Fin 0) \<and> server pid minWeight isDirected = Inr data \<longrightarrow>
           graph (loadGraph server st minWeight isDirected) = Some data
           \<and> graphError (loadGraph server st minWeight isDirected) = None)"
  using assms by (auto simp: loadGraph_def)

theorem threshold_validation_witness:
  "projectId \<lparr>projectId = Some 3, graph = Some \<lparr>nodes = [], links = []\<rparr>, graphError = None,
               graphLoading = False\<rparr> = Some 3
   \<and> js_lt (Fin (- 1)) (Fin 0) \<and> \<not> isFinite NaN \<and> isFinite (Fin 0) \<and> \<not> js_lt (Fin 0) (Fin 0)
   \<and> loadGraph (\<lambda>pid w d. Inr \<lparr>nodes = [\<lparr>node_id = 0, name = ''A''\<rparr>], links = []\<rparr>)
        \<lparr>projectId = Some 3, graph = Some \<lparr>nodes = [], links = []\<rparr>, graphError = None,
          graphLoading = False\<rparr> (Fin (- 1)) True
      = \<lparr>projectId = Some 3, graph = None,
          graphError = Some ''El umbral debe ser un nAmero positivo.'', graphLoading = False\<rparr>
   \<and> graphError (loadGraph (\<lambda>pid w d. Inr \<lparr>nodes = [\<lparr>node_id = 0, name = ''A''\<rparr>], links = []\<rparr>)
        \<lparr>projectId = Some 3, graph = Some \<lparr>nodes = [], links = []\<rparr>, graphError = None,
          graphLoading = False\<rparr> NaN True) \<noteq> None
   \<and> graph (loadGraph (\<lambda>pid w d. Inr \<lparr>nodes = [\<lparr>node_id = 0, name = ''A''\<rparr>], links = []\<rparr>)
        \<lparr>projectId = Some 3, graph = Some \<lparr>nodes = [], links = []\<rparr>, graphError = None,
          graphLoading = False\<rparr> (Fin 0) True)
      = Some \<lparr>nodes = [\<lparr>node_id = 0, name = ''A''\<rparr>], links = []\<rparr>"
proof -
  let ?st = "\<lparr>projectId = Some (3::nat), graph = Some \<lparr>nodes = [], links = []\<rparr>, graphError = None,
               graphLoading = False\<rparr>"
  let ?g = "\<lparr>nodes = [\<lparr>node_id = 0, name = ''A''\<rparr>], links = []\<rparr>"
  let ?server = "\<lambda>(pid::nat) (w::jsnum) (d::bool). (Inr ?g :: string + GraphOut)"
  have p: "projectId ?st = Some 3" by simp
  have n: "(3::nat) \<noteq> 0" by simp
  have c: "js_lt (Fin (- 1)) (Fin 0)" "\<not> isFinite NaN" "isFinite (Fin 0)" "\<not> js_lt (Fin 0) (Fin 0)"
    by simp_all
  have "loadGraph ?server ?st (Fin (- 1)) True =
      ?st\<lparr>graphError := Some ''El umbral debe ser un nAmero positivo.'', graph := None\<rparr>"
    using threshold_validation[OF p n, of "Fin (- 1)" ?server True] c(1) by blast
  then have e1: "loadGraph ?server ?st (Fin (- 1)) True
      = \<lparr>projectId = Some 3, graph = None,
          graphError = Some ''El umbral debe ser un nAmero positivo.'', graphLoading = False\<rparr>"
    by simp
  have e2: "graphError (loadGraph ?server ?st NaN True) \<noteq> None"
    using threshold_validation[OF p n, of NaN ?server True] c(2) by blast
  have s: "?server 3 (Fin 0) True = Inr ?g" by simp
  have e3: "graph (loadGraph ?server ?st (Fin 0) True) = Some ?g"
    using threshold_validation[OF p n, of "Fin 0" ?server True ?g] c(3,4) s by blast
  show ?thesis using p c e1 e2 e3 by (intro conjI)
qed

text \<open>
  The specification has an error message for every call with a threshold below 0. With no project
  selected, the call with \<open>minWeight = -1\<close> returns the state unchanged: no message.
\<close>

theorem no_project_counterexample:
  "js_lt (Fin (- 1)) (Fin 0)
   \<and> loadGraph (\<lambda>pid w d. Inl ''no answer'')
        \<lparr>projectId = None, graph = None, graphError = None, graphLoading = False\<rparr> (Fin (- 1)) True
      = \<lparr>projectId = None, graph = None, graphError = None, graphLoading = False\<rparr>
   \<and> graphError (loadGraph (\<lambda>pid w d. Inl ''no answer'')
        \<lparr>projectId = None, graph = None, graphError = None, graphLoading = False\<rparr> (Fin (- 1)) True)
      = None"
  by (simp add: loadGraph_def)
end
